theory Spec2Isabelle
  imports Main
begin

section \<open>The launcher \<open>run_voice_input.py\<close>: external world\<close>

text \<open>
  The script drives external programs through \<open>subprocess.run\<close>, looks tools up with
  \<open>shutil.which\<close>, tests and creates files, and downloads one file. None of that is
  code of the script, so it is a parameter of the model: an environment of oracles that
  answer each request from the history of the effects performed so far. The history is the
  state every function threads through; a function returns the extended history together
  with its value, or with the exception that left it.

  Strings hold UTF-8 bytes. Console output (\<open>print\<close>, the helpers \<open>ok\<close>, \<open>warn\<close>,
  \<open>err\<close>, \<open>info\<close>, \<open>header\<close>) has no influence on control flow and is not modelled;
  the text written to the dashboard's widgets is.
\<close>

type_synonym path = string

datatype py_exception =
    TimeoutExpired string string string
  | OSError string

text \<open>
  The exceptions are those that the library calls raise themselves, all of them subclasses
  of \<open>Exception\<close>. \<open>TimeoutExpired msg out err\<close> carries \<open>str(e)\<close> and the output
  captured until the child was killed. \<open>OSError\<close> stands for \<open>FileNotFoundError\<close>,
  \<open>PermissionError\<close> and the other errors of spawning or of the network, with
  \<open>str(e)\<close>. An interrupt from the keyboard, which can stop any Python program at any
  point, is not modelled; the two launchers catch it around their long-running command
  only to end quietly.
\<close>

fun str_exc :: "py_exception \<Rightarrow> string" where
  "str_exc (TimeoutExpired m out e) = m"
| "str_exc (OSError m) = m"

record call =
  argv :: "string list"
  cwd :: "path option"
  capture_output :: bool
  timeout :: "nat option"

record completed_process =
  returncode :: int
  stdout :: string
  stderr :: string

datatype event =
    Run call
  | Mkdir path
  | UrlRetrieve string path
  | OpenBrowser string
  | TkMainloop

record env =
  project_root :: path
  which :: "string \<Rightarrow> path option"
  fs_exists :: "event list \<Rightarrow> path \<Rightarrow> bool"
  fs_mkdir :: "event list \<Rightarrow> path \<Rightarrow> py_exception option"
  proc_run :: "event list \<Rightarrow> call \<Rightarrow> py_exception + completed_process"
  url_retrieve :: "event list \<Rightarrow> string \<Rightarrow> path \<Rightarrow> py_exception option"
  tkinter_available :: bool

type_synonym 'a io = "event list \<Rightarrow> (py_exception + 'a) \<times> event list"

definition io_return :: "'a \<Rightarrow> 'a io" where
  "io_return x h = (Inr x, h)"

definition io_bind :: "'a io \<Rightarrow> ('a \<Rightarrow> 'b io) \<Rightarrow> 'b io" where
  "io_bind m f h = (case m h of (Inl e, h') \<Rightarrow> (Inl e, h') | (Inr x, h') \<Rightarrow> f x h')"

definition subprocess_run :: "env \<Rightarrow> call \<Rightarrow> completed_process io" where
  "subprocess_run E c h = (proc_run E h c, h @ [Run c])"

subsection \<open>Constants\<close>

definition path_join :: "path \<Rightarrow> string \<Rightarrow> path" where
  "path_join p name = p @ ''/'' @ name"

definition PROJECT_ROOT :: "env \<Rightarrow> path" where
  "PROJECT_ROOT E = project_root E"

definition SRC_TAURI :: "env \<Rightarrow> path" where
  "SRC_TAURI E = path_join (PROJECT_ROOT E) ''src-tauri''"

definition VITE_URL :: string where
  "VITE_URL = ''http://localhost:1420''"

definition VAD_MODEL_URL :: string where
  "VAD_MODEL_URL = ''https://blob.handy.computer/silero_vad_v4.onnx''"

definition VAD_MODEL_DIR :: "env \<Rightarrow> path" where
  "VAD_MODEL_DIR E = path_join (path_join (SRC_TAURI E) ''resources'') ''models''"

definition VAD_MODEL_PATH :: "env \<Rightarrow> path" where
  "VAD_MODEL_PATH E = path_join (VAD_MODEL_DIR E) ''silero_vad_v4.onnx''"

section \<open>Prerequisite checks\<close>

text \<open>
  \<open>check_command\<close> returns the path of the tool, or \<open>None\<close>; the version string it also
  returns is only printed. \<open>if not path\<close> is Python truthiness: \<open>None\<close> and the empty
  string count as absent. \<open>except Exception\<close> around the version probe keeps the path.
  \<open>check_prerequisites\<close> also looks whether the VAD model file exists, only to print it.
\<close>

definition truthy :: "string option \<Rightarrow> bool" where
  "truthy p = (case p of None \<Rightarrow> False | Some s \<Rightarrow> s \<noteq> [])"

definition version_call :: "path \<Rightarrow> string \<Rightarrow> call" where
  "version_call p version_flag =
     \<lparr>argv = [p, version_flag], cwd = None, capture_output = True, timeout = Some 10\<rparr>"

definition check_command :: "env \<Rightarrow> string \<Rightarrow> string \<Rightarrow> (path option) io" where
  "check_command E name version_flag h =
     (let p = which E name in
      if \<not> truthy p then (Inr None, h)
      else (case subprocess_run E (version_call (the p) version_flag) h of
              (Inr result, h') \<Rightarrow> (Inr p, h')
            | (Inl e, h') \<Rightarrow> (Inr p, h')))"

definition check_prerequisites :: "env \<Rightarrow> bool io" where
  "check_prerequisites E =
     io_bind (check_command E ''rustc'' ''--version'') (\<lambda>rustc.
     let all_ok1 = (if truthy rustc then True else False) in
     io_bind (check_command E ''cargo'' ''--version'') (\<lambda>cargo.
     let all_ok2 = (if truthy cargo then all_ok1 else False) in
     io_bind (check_command E ''bun'' ''--version'') (\<lambda>bun.
     let all_ok3 = (if truthy bun then all_ok2 else False) in
     io_bind (check_command E ''node'' ''--version'') (\<lambda>node.
     io_return all_ok3))))"

section \<open>Setup\<close>

definition batch_call :: "string list \<Rightarrow> path \<Rightarrow> call" where
  "batch_call cmd dir = \<lparr>argv = cmd, cwd = Some dir, capture_output = False, timeout = None\<rparr>"

definition install_dependencies :: "env \<Rightarrow> bool io" where
  "install_dependencies E =
     io_bind (subprocess_run E (batch_call [''bun'', ''install''] (PROJECT_ROOT E))) (\<lambda>result.
     io_return (returncode result = 0))"

text \<open>
  \<open>download_vad_model\<close>: the \<open>mkdir\<close> stands before the \<open>try\<close>, so its exception leaves
  the function; inside the \<open>try\<close>, \<open>except Exception\<close> turns every exception of curl's
  launch and of \<open>urlretrieve\<close> into the result \<open>False\<close>.
\<close>

definition curl_call :: "env \<Rightarrow> call" where
  "curl_call E =
     \<lparr>argv = [''curl'', ''-L'', ''-o'', VAD_MODEL_PATH E, VAD_MODEL_URL],
      cwd = None, capture_output = False, timeout = None\<rparr>"

definition download_urllib :: "env \<Rightarrow> bool io" where
  "download_urllib E h =
     (let h' = h @ [UrlRetrieve VAD_MODEL_URL (VAD_MODEL_PATH E)] in
      case url_retrieve E h VAD_MODEL_URL (VAD_MODEL_PATH E) of
        None \<Rightarrow> (Inr True, h')
      | Some e \<Rightarrow> (Inr False, h'))"

definition download_vad_model :: "env \<Rightarrow> bool io" where
  "download_vad_model E h =
     (if fs_exists E h (VAD_MODEL_PATH E) then (Inr True, h)
      else
        let h1 = h @ [Mkdir (VAD_MODEL_DIR E)] in
        case fs_mkdir E h (VAD_MODEL_DIR E) of
          Some e \<Rightarrow> (Inl e, h1)
        | None \<Rightarrow>
            if truthy (which E ''curl'') then
              (case subprocess_run E (curl_call E) h1 of
                 (Inl e, h2) \<Rightarrow> (Inr False, h2)
               | (Inr result, h2) \<Rightarrow>
                   if returncode result = 0 then (Inr True, h2)
                   else download_urllib E h2)
            else download_urllib E h1)"

section \<open>Test runners (batch mode)\<close>

definition run_rust_tests :: "env \<Rightarrow> bool io" where
  "run_rust_tests E =
     io_bind (subprocess_run E (batch_call [''cargo'', ''test'', ''--lib''] (SRC_TAURI E))) (\<lambda>result.
     io_return (returncode result = 0))"

definition run_frontend_lint :: "env \<Rightarrow> bool io" where
  "run_frontend_lint E =
     io_bind (subprocess_run E (batch_call [''bun'', ''run'', ''lint''] (PROJECT_ROOT E))) (\<lambda>result.
     io_return (returncode result = 0))"

definition run_format_check :: "env \<Rightarrow> bool io" where
  "run_format_check E =
     io_bind (subprocess_run E (batch_call [''bun'', ''run'', ''format:check''] (PROJECT_ROOT E))) (\<lambda>result.
     io_return (returncode result = 0))"

definition run_type_check :: "env \<Rightarrow> bool io" where
  "run_type_check E =
     io_bind (subprocess_run E (batch_call [''bun'', ''x'', ''tsc'', ''--noEmit''] (PROJECT_ROOT E))) (\<lambda>result.
     io_return (returncode result = 0))"

text \<open>
  A Python \<open>dict\<close> keeps insertion order; assigning to a key that is present replaces the
  value where it stands.
\<close>

fun dict_set :: "('k \<times> 'v) list \<Rightarrow> 'k \<Rightarrow> 'v \<Rightarrow> ('k \<times> 'v) list" where
  "dict_set [] k v = [(k, v)]"
| "dict_set ((k', v') # rest) k v =
     (if k' = k then (k, v) # rest else (k', v') # dict_set rest k v)"

text \<open>The summary loop of \<open>run_all_tests\<close>: \<open>all_passed\<close> starts \<open>True\<close>.\<close>

fun summary_loop :: "(string \<times> bool) list \<Rightarrow> bool \<Rightarrow> bool" where
  "summary_loop [] all_passed = all_passed"
| "summary_loop ((name, passed) # rest) all_passed =
     summary_loop rest (if passed then all_passed else False)"

definition run_all_tests :: "env \<Rightarrow> bool io" where
  "run_all_tests E =
     io_bind (run_rust_tests E) (\<lambda>r1.
     let results1 = dict_set [] ''Rust Tests'' r1 in
     io_bind (run_frontend_lint E) (\<lambda>r2.
     let results2 = dict_set results1 ''Frontend Lint'' r2 in
     io_bind (run_type_check E) (\<lambda>r3.
     let results3 = dict_set results2 ''Type Check'' r3 in
     io_bind (run_format_check E) (\<lambda>r4.
     let results4 = dict_set results3 ''Format Check'' r4 in
     io_return (summary_loop results4 True)))))"

section \<open>Launchers\<close>

text \<open>
  The daemon thread that opens the browser after a delay is recorded as one event where
  the thread is started.
\<close>

definition launch_frontend_only :: "env \<Rightarrow> unit io" where
  "launch_frontend_only E h =
     (case subprocess_run E \<lparr>argv = [''bun'', ''run'', ''dev''], cwd = Some (PROJECT_ROOT E),
                              capture_output = False, timeout = None\<rparr> (h @ [OpenBrowser VITE_URL]) of
        (Inr result, h') \<Rightarrow> (Inr (), h')
      | (Inl e, h') \<Rightarrow> (Inl e, h'))"

definition launch_tauri_dev :: "env \<Rightarrow> unit io" where
  "launch_tauri_dev E h =
     (case subprocess_run E \<lparr>argv = [''bun'', ''run'', ''tauri'', ''dev''], cwd = Some (PROJECT_ROOT E),
                              capture_output = False, timeout = None\<rparr> h of
        (Inr result, h') \<Rightarrow> (Inr (), h')
      | (Inl e, h') \<Rightarrow> (Inl e, h'))"

text \<open>
  Seen from \<open>main\<close>, \<open>launch_dashboard\<close> returns at once when tkinter cannot be imported
  and otherwise runs the event loop until the window is closed; what the window's buttons
  do is modelled in the sections on the dashboard.
\<close>

definition launch_dashboard :: "env \<Rightarrow> unit io" where
  "launch_dashboard E h = (if tkinter_available E then (Inr (), h @ [TkMainloop]) else (Inr (), h))"

section \<open>Main\<close>

record args =
  frontend :: bool
  test :: bool
  test_rust :: bool
  dashboard :: bool
  skip_checks :: bool

text \<open>
  How the process ends: \<open>sys.exit(n)\<close>, a plain return from \<open>main\<close>, or an exception
  that nothing caught (a traceback).
\<close>

datatype process_end = SysExit int | Returned | Traceback py_exception

definition end_with :: "(py_exception + 'a) \<times> event list \<Rightarrow> ('a \<Rightarrow> process_end) \<Rightarrow> process_end \<times> event list" where
  "end_with r f = (case r of (Inl e, h) \<Rightarrow> (Traceback e, h) | (Inr x, h) \<Rightarrow> (f x, h))"

definition main_modes :: "args \<Rightarrow> env \<Rightarrow> event list \<Rightarrow> process_end \<times> event list" where
  "main_modes a E h =
     (if test_rust a then
        end_with (run_rust_tests E h) (\<lambda>success. SysExit (if success then 0 else 1))
      else if test a then
        end_with (run_all_tests E h) (\<lambda>success. SysExit (if success then 0 else 1))
      else if dashboard a then
        end_with (io_bind (install_dependencies E) (\<lambda>_.
                io_bind (download_vad_model E) (\<lambda>_.
                launch_dashboard E)) h) (\<lambda>_. Returned)
      else if frontend a then
        end_with (io_bind (install_dependencies E) (\<lambda>_.
                launch_frontend_only E) h) (\<lambda>_. Returned)
      else
        end_with (io_bind (install_dependencies E) (\<lambda>_.
                io_bind (download_vad_model E) (\<lambda>_.
                launch_tauri_dev E)) h) (\<lambda>_. Returned))"

definition main :: "args \<Rightarrow> env \<Rightarrow> event list \<Rightarrow> process_end \<times> event list" where
  "main a E h =
     (if \<not> skip_checks a then
        (case check_prerequisites E h of
           (Inl e, h') \<Rightarrow> (Traceback e, h')
         | (Inr all_ok, h') \<Rightarrow> if \<not> all_ok then (SysExit 1, h') else main_modes a E h')
      else main_modes a E h)"

section \<open>Dashboard: what a worker thread does\<close>

text \<open>
  The dashboard shows text in a scrolled text widget and a status line. The widget is a
  list of inserted segments, each with its colour tag; \<open>write_output\<close> appends a newline
  to what it inserts. The characters outside ASCII are the UTF-8 bytes of the source's
  literals.
\<close>

record widgets =
  output_box :: "(string \<times> string option) list"
  status_var :: string

definition nl :: string where
  "nl = [CHR 0x0A]"

definition check_mark :: string where
  "check_mark = [CHR 0xE2, CHR 0x9C, CHR 0x93]"

definition cross_mark :: string where
  "cross_mark = [CHR 0xE2, CHR 0x9C, CHR 0x97]"

definition em_dash :: string where
  "em_dash = [CHR 0xE2, CHR 0x80, CHR 0x94]"

definition box_light :: string where
  "box_light = [CHR 0xE2, CHR 0x94, CHR 0x80]"

definition box_double :: string where
  "box_double = [CHR 0xE2, CHR 0x95, CHR 0x90]"

definition py_repeat :: "string \<Rightarrow> nat \<Rightarrow> string" where
  "py_repeat s n = concat (replicate n s)"

fun str_nat :: "nat \<Rightarrow> string" where
  "str_nat n = (if n < 10 then [char_of (48 + n)] else str_nat (n div 10) @ [char_of (48 + n mod 10)])"

declare str_nat.simps [simp del]

definition str_int :: "int \<Rightarrow> string" where
  "str_int i = (if i < 0 then ''-'' @ str_nat (nat (- i)) else str_nat (nat i))"

definition write_output :: "widgets \<Rightarrow> string \<Rightarrow> string option \<Rightarrow> widgets" where
  "write_output W txt tag = W\<lparr>output_box := output_box W @ [(txt @ nl, tag)]\<rparr>"

definition clear_output :: "widgets \<Rightarrow> widgets" where
  "clear_output W = W\<lparr>output_box := []\<rparr>"

definition status_set :: "widgets \<Rightarrow> string \<Rightarrow> widgets" where
  "status_set W s = W\<lparr>status_var := s\<rparr>"

text \<open>
  Both worker bodies call \<open>subprocess.run\<close> with \<open>capture_output=True\<close>, \<open>text=True\<close>
  and \<open>timeout=300\<close>, choose the working directory by looking for the argument
  \<open>"cargo"\<close> in the command list, and show the two captured streams when they are not
  empty.
\<close>

definition interactive_call :: "string list \<Rightarrow> path \<Rightarrow> call" where
  "interactive_call cmd dir = \<lparr>argv = cmd, cwd = Some dir, capture_output = True, timeout = Some 300\<rparr>"

definition show_streams :: "completed_process \<Rightarrow> widgets \<Rightarrow> widgets" where
  "show_streams result W =
     (let W1 = (if stdout result \<noteq> [] then write_output W (stdout result) None else W)
      in if stderr result \<noteq> [] then write_output W1 (stderr result) None else W1)"

text \<open>
  \<open>wrapper\<close> is the body of the thread that \<open>run_in_thread(func, label)\<close> starts.
\<close>

definition wrapper_header :: "string \<Rightarrow> widgets \<Rightarrow> widgets" where
  "wrapper_header label W =
     (let W1 = status_set W (''Running: '' @ label @ ''...'');
          W2 = clear_output W1;
          W3 = write_output W2 (py_repeat ''='' 50) None;
          W4 = write_output W3 (''  '' @ label) None
      in write_output W4 (py_repeat ''='' 50 @ nl) None)"

definition wrapper :: "env \<Rightarrow> string list \<Rightarrow> string \<Rightarrow> event list \<Rightarrow> widgets
    \<Rightarrow> event list \<times> widgets" where
  "wrapper E func label h W =
     (let W5 = wrapper_header label W in
      case subprocess_run E
             (interactive_call func (if ''cargo'' \<notin> set func then PROJECT_ROOT E else SRC_TAURI E)) h of
        (Inr result, h') \<Rightarrow>
          (let W6 = show_streams result W5 in
           if returncode result = 0 then
             (h',
              status_set
                (write_output W6 (nl @ check_mark @ '' '' @ label @ '' '' @ em_dash @ '' PASSED'') (Some ''green''))
                (check_mark @ '' '' @ label @ '' passed''))
           else
             (h',
              status_set
                (write_output W6
                   (nl @ cross_mark @ '' '' @ label @ '' '' @ em_dash @ '' FAILED (exit code ''
                      @ str_int (returncode result) @ '')'') (Some ''red''))
                (cross_mark @ '' '' @ label @ '' failed'')))
      | (Inl e, h') \<Rightarrow>
          (case e of
             TimeoutExpired m out err \<Rightarrow>
               (h',
                status_set
                  (write_output W5 (nl @ ''! '' @ label @ '' '' @ em_dash @ '' TIMEOUT'') (Some ''yellow''))
                  (''! '' @ label @ '' timed out''))
           | _ \<Rightarrow>
               (h',
                status_set
                  (write_output W5 (nl @ cross_mark @ '' Error: '' @ str_exc e) (Some ''red''))
                  (cross_mark @ '' Error running '' @ label))))"

text \<open>
  \<open>run_all_thread\<close>: the body of the loop over \<open>checks\<close>, the loop, and the summary.
  \<open>except Exception\<close> records the check as failed and the loop goes on.
\<close>

definition run_all_checks :: "(string \<times> string list) list" where
  "run_all_checks =
     [(''Rust Tests'', [''cargo'', ''test'', ''--lib'']),
      (''Frontend Lint'', [''bun'', ''run'', ''lint'']),
      (''Type Check'', [''bun'', ''x'', ''tsc'', ''--noEmit''])]"

definition run_all_header :: "string \<Rightarrow> widgets \<Rightarrow> widgets" where
  "run_all_header label W =
     (let W1 = write_output W (nl @ py_repeat box_light 40) None;
          W2 = write_output W1 (''  Running: '' @ label) None;
          W3 = write_output W2 (py_repeat box_light 40 @ nl) None
      in status_set W3 (''Running: '' @ label @ ''...''))"

fun run_all_loop :: "env \<Rightarrow> (string \<times> string list) list \<Rightarrow> event list \<Rightarrow> widgets
    \<Rightarrow> (string \<times> bool) list \<Rightarrow> event list \<times> widgets \<times> (string \<times> bool) list" where
  "run_all_loop E [] h W results = (h, W, results)"
| "run_all_loop E ((label, cmd) # rest) h W results =
     (let W4 = run_all_header label W in
      case subprocess_run E
             (interactive_call cmd (if ''cargo'' \<in> set cmd then SRC_TAURI E else PROJECT_ROOT E)) h of
        (Inr result, h') \<Rightarrow>
          run_all_loop E rest h' (show_streams result W4) (dict_set results label (returncode result = 0))
      | (Inl e, h') \<Rightarrow>
          run_all_loop E rest h' (write_output W4 (''Error: '' @ str_exc e) (Some ''red''))
            (dict_set results label False))"

fun summary_lines :: "(string \<times> bool) list \<Rightarrow> widgets \<Rightarrow> widgets" where
  "summary_lines [] W = W"
| "summary_lines ((label, passed) # rest) W =
     summary_lines rest
       (if passed then write_output W (''  '' @ check_mark @ '' '' @ label) (Some ''green'')
        else write_output W (''  '' @ cross_mark @ '' '' @ label) (Some ''red''))"

fun py_all :: "bool list \<Rightarrow> bool" where
  "py_all [] = True"
| "py_all (x # xs) = (if x then py_all xs else False)"

definition run_all_summary :: "(string \<times> bool) list \<Rightarrow> widgets \<Rightarrow> widgets" where
  "run_all_summary results W =
     (let W1 = write_output W (nl @ py_repeat box_double 50) None;
          W2 = write_output W1 ''  Summary'' None;
          W3 = write_output W2 (py_repeat box_double 50 @ nl) None;
          W4 = summary_lines results W3;
          all_passed = py_all (map snd results)
      in if all_passed then
           status_set (write_output W4 (nl @ ''  All checks passed!'') (Some ''green''))
             (check_mark @ '' All checks passed!'')
         else
           status_set (write_output W4 (nl @ ''  Some checks failed.'') (Some ''red''))
             (cross_mark @ '' Some checks failed''))"

text \<open>
  \<open>run_all_thread_on\<close> is \<open>run_all_thread\<close> with the local list \<open>checks\<close> as a
  parameter; \<open>run_all_thread\<close> is the function of the source.
\<close>

definition run_all_thread_on :: "env \<Rightarrow> (string \<times> string list) list \<Rightarrow> event list \<Rightarrow> widgets
    \<Rightarrow> event list \<times> widgets" where
  "run_all_thread_on E checks h W =
     (case run_all_loop E checks h W [] of
        (h', W', results) \<Rightarrow> (h', run_all_summary results W'))"

definition run_all_thread :: "env \<Rightarrow> event list \<Rightarrow> widgets \<Rightarrow> event list \<times> widgets" where
  "run_all_thread E h W = run_all_thread_on E run_all_checks h W"

section \<open>Dashboard: buttons and threads\<close>

text \<open>
  Every handler runs on the event loop and returns at once; the work is done by daemon
  threads, which the handlers start with \<open>threading.Thread(...).start()\<close> and never join.
  The window's state is its widgets and the threads that were started and have not
  returned yet. The event loop stays responsive while threads run, so a button can be
  pressed at any time. What a thread writes to the widgets while it runs is the subject of
  the previous section and is not repeated in the steps below.
\<close>

datatype worker =
    CheckWorker "string list" string
  | RunAllWorker
  | BrowserWorker

record gui =
  display :: widgets
  workers :: "worker list"

definition gui_init :: gui where
  "gui_init = \<lparr>display = \<lparr>output_box = [], status_var = ''Ready''\<rparr>, workers = []\<rparr>"

definition start_thread :: "worker \<Rightarrow> gui \<Rightarrow> gui" where
  "start_thread w G = G\<lparr>workers := workers G @ [w]\<rparr>"

definition run_in_thread :: "string list \<Rightarrow> string \<Rightarrow> gui \<Rightarrow> gui" where
  "run_in_thread func label G = start_thread (CheckWorker func label) G"

definition buttons :: "(string \<times> string list) list" where
  "buttons =
     [(''Run Rust Tests'', [''cargo'', ''test'', ''--lib'']),
      (''Lint Frontend'', [''bun'', ''run'', ''lint'']),
      (''Type Check'', [''bun'', ''x'', ''tsc'', ''--noEmit'']),
      (''Format Check'', [''bun'', ''run'', ''format:check''])]"

definition launch_frontend_btn :: "gui \<Rightarrow> gui" where
  "launch_frontend_btn G =
     (let W1 = status_set (display G) ''Starting frontend dev server...'';
          W2 = clear_output W1;
          W3 = write_output W2 (''Starting Vite dev server at http://localhost:1420...'' @ nl) None;
          W4 = write_output W3 (''Opening browser in 3 seconds...'' @ nl) None
      in run_in_thread [''bun'', ''run'', ''dev''] ''Vite Dev Server''
           (start_thread BrowserWorker (G\<lparr>display := W4\<rparr>)))"

definition launch_tauri_btn :: "gui \<Rightarrow> gui" where
  "launch_tauri_btn G =
     (let W1 = status_set (display G) ''Building & launching Tauri app...'';
          W2 = clear_output W1;
          W3 = write_output W2 (''Starting Tauri dev mode (this may take a few minutes)...'' @ nl) None
      in run_in_thread [''bun'', ''run'', ''tauri'', ''dev''] ''Tauri Dev'' (G\<lparr>display := W3\<rparr>))"

definition run_all_btn :: "gui \<Rightarrow> gui" where
  "run_all_btn G =
     (let W1 = status_set (display G) ''Running all checks...'';
          W2 = clear_output W1
      in start_thread RunAllWorker (G\<lparr>display := W2\<rparr>))"

datatype gui_event = Button nat | Button2 nat | ThreadReturns nat

fun drop_nth :: "nat \<Rightarrow> 'a list \<Rightarrow> 'a list" where
  "drop_nth k xs = take k xs @ drop (Suc k) xs"

fun gui_step :: "gui \<Rightarrow> gui_event \<Rightarrow> gui" where
  "gui_step G (Button i) =
     (if i < length buttons then run_in_thread (snd (buttons ! i)) (fst (buttons ! i)) G else G)"
| "gui_step G (Button2 j) =
     (if j = 0 then launch_frontend_btn G
      else if j = 1 then launch_tauri_btn G
      else if j = 2 then run_all_btn G
      else if j = 3 then G\<lparr>display := clear_output (display G)\<rparr>
      else G)"
| "gui_step G (ThreadReturns k) = G\<lparr>workers := drop_nth k (workers G)\<rparr>"

definition gui_run :: "gui_event list \<Rightarrow> gui" where
  "gui_run evs = foldl gui_step gui_init evs"

text \<open>The executions of the check named \<open>label\<close> that are in flight.\<close>

fun runs_check :: "string \<Rightarrow> worker \<Rightarrow> bool" where
  "runs_check label (CheckWorker func l) = (l = label)"
| "runs_check label RunAllWorker = False"
| "runs_check label BrowserWorker = False"

definition in_flight :: "string \<Rightarrow> gui \<Rightarrow> nat" where
  "in_flight label G = length (filter (runs_check label) (workers G))"

section \<open>Vocabulary of the properties\<close>

text \<open>
  The version probes that \<open>check_prerequisites\<close> runs, in order: one for each of the four
  tools that \<open>shutil.which\<close> finds.
\<close>

definition probe_calls :: "env \<Rightarrow> call list" where
  "probe_calls E =
     map (\<lambda>name. version_call (the (which E name)) ''--version'')
       (filter (\<lambda>name. truthy (which E name)) [''rustc'', ''cargo'', ''bun'', ''node''])"

definition prerequisites_met :: "env \<Rightarrow> bool" where
  "prerequisites_met E =
     (truthy (which E ''rustc'') \<and> truthy (which E ''cargo'') \<and> truthy (which E ''bun''))"

definition gate_events :: "args \<Rightarrow> env \<Rightarrow> event list" where
  "gate_events a E = (if skip_checks a then [] else map Run (probe_calls E))"

text \<open>
  The four checks of \<open>run_all_tests\<close> with the call each runner makes, and what the world
  answers when a list of calls is made one after the other from history \<open>h\<close>.
\<close>

definition check_catalog :: "env \<Rightarrow> (string \<times> call) list" where
  "check_catalog E =
     [(''Rust Tests'', batch_call [''cargo'', ''test'', ''--lib''] (SRC_TAURI E)),
      (''Frontend Lint'', batch_call [''bun'', ''run'', ''lint''] (PROJECT_ROOT E)),
      (''Type Check'', batch_call [''bun'', ''x'', ''tsc'', ''--noEmit''] (PROJECT_ROOT E)),
      (''Format Check'', batch_call [''bun'', ''run'', ''format:check''] (PROJECT_ROOT E))]"

fun outcomes :: "env \<Rightarrow> call list \<Rightarrow> event list \<Rightarrow> (py_exception + completed_process) list" where
  "outcomes E [] h = []"
| "outcomes E (c # cs) h = proc_run E h c # outcomes E cs (h @ [Run c])"

text \<open>The working directory both worker bodies choose for a command.\<close>

definition check_cwd :: "env \<Rightarrow> string list \<Rightarrow> path" where
  "check_cwd E cmd = (if ''cargo'' \<in> set cmd then SRC_TAURI E else PROJECT_ROOT E)"

text \<open>
  A check passed when its command ran to exit code 0. The calls that the loop of
  \<open>run_all_thread\<close> makes for a list of checks.
\<close>

definition passed :: "py_exception + completed_process \<Rightarrow> bool" where
  "passed r = (case r of Inl e \<Rightarrow> False | Inr result \<Rightarrow> returncode result = 0)"


subsection \<open>Concrete worlds\<close>

definition ok_process :: completed_process where
  "ok_process = \<lparr>returncode = 0, stdout = [], stderr = []\<rparr>"

definition env_base :: env where
  "env_base =
     \<lparr>project_root = ''/repo'',
      which = (\<lambda>name. Some (''/usr/bin/'' @ name)),
      fs_exists = (\<lambda>h p. False),
      fs_mkdir = (\<lambda>h p. None),
      proc_run = (\<lambda>h c. Inr ok_process),
      url_retrieve = (\<lambda>h u p. None),
      tkinter_available = True\<rparr>"


definition env_timeout :: env where
  "env_timeout =
     env_base\<lparr>proc_run := (\<lambda>h c. Inl (TimeoutExpired ''timed out after 300 seconds''
                                       ''running 12 tests'' ''warning: unused variable''))\<rparr>"

definition env_no_cargo :: env where
  "env_no_cargo =
     env_base\<lparr>which := (\<lambda>name. if name = ''cargo'' then None else Some (''/usr/bin/'' @ name)),
              proc_run := (\<lambda>h c. if take 1 (argv c) = [''cargo'']
                                   then Inl (OSError ''[Errno 2] No such file or directory: cargo'')
                                   else Inr ok_process)\<rparr>"

definition env_no_src_tauri :: env where
  "env_no_src_tauri =
     env_base\<lparr>proc_run := (\<lambda>h c. if cwd c = Some ''/repo/src-tauri''
                                   then Inl (OSError ''[Errno 2] No such file or directory: /repo/src-tauri'')
                                   else Inr ok_process)\<rparr>"

definition args_none :: args where
  "args_none = \<lparr>frontend = False, test = False, test_rust = False, dashboard = False, skip_checks = False\<rparr>"

definition args_test :: args where
  "args_test = args_none\<lparr>test := True\<rparr>"

definition args_skip_test_rust :: args where
  "args_skip_test_rust = args_none\<lparr>test_rust := True, skip_checks := True\<rparr>"

definition widgets_init :: widgets where
  "widgets_init = \<lparr>output_box = [], status_var = ''Ready''\<rparr>"

definition env_format_fails :: env where
  "env_format_fails =
     env_base\<lparr>proc_run := (\<lambda>h c. if argv c = [''bun'', ''run'', ''format:check'']
                                   then Inr \<lparr>returncode = 1, stdout = ''[warn] src/App.tsx'', stderr = []\<rparr>
                                   else Inr ok_process)\<rparr>"

definition env_curl_broken :: env where
  "env_curl_broken =
     env_base\<lparr>proc_run := (\<lambda>h c. if take 1 (argv c) = [''curl'']
                                   then Inl (OSError ''[Errno 8] Exec format error: curl'')
                                   else Inr ok_process)\<rparr>"

definition args_skip_test :: args where
  "args_skip_test = args_none\<lparr>test := True, skip_checks := True\<rparr>"

section \<open>Properties\<close>

subsection \<open>Auxiliary facts\<close>

lemma io_bind_Inr [simp]: "m h = (Inr x, h') \<Longrightarrow> io_bind m f h = f x h'"
  by (simp add: io_bind_def)

lemma io_bind_Inl [simp]: "m h = (Inl e, h') \<Longrightarrow> io_bind m f h = (Inl e, h')"
  by (simp add: io_bind_def)

lemma truthy_simps [simp]: "\<not> truthy None" "truthy (Some s) = (s \<noteq> [])"
  by (simp_all add: truthy_def)

lemma check_command_eq:
  "check_command E name flag h =
     (Inr (if truthy (which E name) then which E name else None),
      h @ (if truthy (which E name) then [Run (version_call (the (which E name)) flag)] else []))"
  by (simp add: check_command_def subprocess_run_def Let_def split: sum.splits)

lemma check_prerequisites_eq:
  "check_prerequisites E h = (Inr (prerequisites_met E), h @ map Run (probe_calls E))"
  by (simp add: check_prerequisites_def check_command_eq probe_calls_def prerequisites_met_def
      io_return_def Let_def)

lemma batch_runner_eq:
  "io_bind (subprocess_run E c) (\<lambda>result. io_return (returncode result = 0)) h =
     (case proc_run E h c of Inl e \<Rightarrow> Inl e | Inr result \<Rightarrow> Inr (returncode result = 0), h @ [Run c])"
  by (simp add: io_bind_def subprocess_run_def io_return_def split: sum.splits)

text \<open>
  When each of the four commands runs to an exit code, whatever the codes are,
  \<open>run_all_tests\<close> runs all four in order and returns whether all codes were zero.
\<close>

lemma run_all_tests_completed:
  assumes "outcomes E (map snd (check_catalog E)) h = map Inr rs"
  shows "run_all_tests E h = (Inr (list_all (\<lambda>r. returncode r = 0) rs), h @ map Run (map snd (check_catalog E)))"
proof -
  from assms obtain r1 r2 r3 r4 where rs: "rs = [r1, r2, r3, r4]"
    by (auto simp: check_catalog_def map_eq_Cons_conv)
  with assms show ?thesis
    by (simp add: check_catalog_def run_all_tests_def run_rust_tests_def run_frontend_lint_def
        run_type_check_def run_format_check_def batch_runner_eq io_return_def Let_def)
qed

lemma main_eq:
  "main a E h =
     (if \<not> skip_checks a \<and> \<not> prerequisites_met E then (SysExit 1, h @ map Run (probe_calls E))
      else main_modes a E (h @ gate_events a E))"
  by (simp add: main_def check_prerequisites_eq gate_events_def)

lemma wrapper_events:
  "fst (wrapper E func label h W) = h @ [Run (interactive_call func (check_cwd E func))]"
  by (simp add: wrapper_def subprocess_run_def check_cwd_def Let_def
      split: sum.splits py_exception.splits)

lemma wrapper_header_eq:
  "wrapper_header label W =
     \<lparr>output_box = [(py_repeat ''='' 50 @ nl, None), (''  '' @ label @ nl, None),
                    (py_repeat ''='' 50 @ nl @ nl, None)],
      status_var = ''Running: '' @ label @ ''...''\<rparr>"
  by (simp add: wrapper_header_def write_output_def clear_output_def status_set_def Let_def)

lemma SRC_TAURI_neq: "SRC_TAURI E \<noteq> PROJECT_ROOT E"
  by (simp add: SRC_TAURI_def path_join_def)

subsection \<open>The batch mode \<open>--test\<close>\<close>






subsection \<open>Errors of spawning in batch mode\<close>

text \<open>
  Claim C3 says that every execution delivers its errors as data, a spawn error included.
  The worker of the dashboard does: it turns the exception into the status
  \<open>Error running ...\<close>. The batch runners do not: with \<open>--skip-checks --test-rust\<close> and
  no \<open>cargo\<close> on the machine, the exception of \<open>subprocess.run\<close> leaves \<open>run_rust_tests\<close>
  and \<open>main\<close>, and the process ends in a traceback.
\<close>

theorem batch_spawn_error_raises:
  "main args_skip_test_rust env_no_cargo [] =
     (Traceback (OSError ''[Errno 2] No such file or directory: cargo''),
      [Run (batch_call [''cargo'', ''test'', ''--lib''] ''/repo/src-tauri'')])
   \<and> status_var (snd (wrapper env_no_cargo [''cargo'', ''test'', ''--lib''] ''Run Rust Tests'' [] widgets_init))
      = cross_mark @ '' Error running Run Rust Tests''"
  by (simp add: main_def main_modes_def end_with_def run_rust_tests_def batch_runner_eq
      args_skip_test_rust_def args_none_def env_no_cargo_def env_base_def batch_call_def
      SRC_TAURI_def PROJECT_ROOT_def path_join_def wrapper_def subprocess_run_def
      interactive_call_def status_set_def write_output_def Let_def)

text \<open>
  Claim C4 says that in a batch run no check's outcome keeps the others from running.
  For exit codes this holds (\<open>run_all_tests_completed\<close>). A check that cannot be spawned
  aborts the batch: with \<open>--test\<close> and the directory \<open>src-tauri\<close> missing, Rust Tests
  raises, and Frontend Lint, Type Check and Format Check are never run. The loop of the
  dashboard's \<open>run_all_thread\<close> records the same failure and goes on.
\<close>

theorem batch_spawn_error_aborts_siblings:
  "main args_test env_no_src_tauri [] =
     (Traceback (OSError ''[Errno 2] No such file or directory: /repo/src-tauri''),
      map Run [version_call ''/usr/bin/rustc'' ''--version'', version_call ''/usr/bin/cargo'' ''--version'',
               version_call ''/usr/bin/bun'' ''--version'', version_call ''/usr/bin/node'' ''--version'',
               batch_call [''cargo'', ''test'', ''--lib''] ''/repo/src-tauri''])
   \<and> snd (snd (run_all_loop env_no_src_tauri run_all_checks [] widgets_init [])) =
       [(''Rust Tests'', False), (''Frontend Lint'', True), (''Type Check'', True)]"
  by (simp add: main_eq main_modes_def end_with_def run_all_tests_def run_rust_tests_def batch_runner_eq
      args_test_def args_none_def env_no_src_tauri_def env_base_def batch_call_def
      SRC_TAURI_def PROJECT_ROOT_def path_join_def prerequisites_met_def gate_events_def probe_calls_def
      version_call_def run_all_checks_def subprocess_run_def interactive_call_def ok_process_def Let_def)

subsection \<open>Working directory and timeout of the interactive checks\<close>

text \<open>
  Claim C2 says that the working directory comes from a field of the check and is never
  inferred from the command. As stated it fails for the dashboard, whose checks are pairs
  of a label and a command: the same label runs in the project root or in \<open>src-tauri\<close>
  depending on whether the argument \<open>cargo\<close> occurs in the command.
\<close>

theorem cwd_follows_command_counterexample:
  "fst (wrapper env_base [''bun'', ''run'', ''lint''] ''Lint'' [] widgets_init) =
      [Run \<lparr>argv = [''bun'', ''run'', ''lint''], cwd = Some ''/repo'', capture_output = True, timeout = Some 300\<rparr>]
   \<and> fst (wrapper env_base [''bun'', ''run'', ''lint'', ''cargo''] ''Lint'' [] widgets_init) =
      [Run \<lparr>argv = [''bun'', ''run'', ''lint'', ''cargo''], cwd = Some ''/repo/src-tauri'',
            capture_output = True, timeout = Some 300\<rparr>]"
  by (simp add: wrapper_events check_cwd_def interactive_call_def env_base_def SRC_TAURI_def
      PROJECT_ROOT_def path_join_def)

text \<open>
  Claim C2, amended: both worker bodies of the dashboard choose the working directory from
  the command alone, whatever the label: \<open>src-tauri\<close> if the command list contains the
  argument \<open>cargo\<close>, the project root otherwise; of the dashboard's checks only the Rust
  tests contain it. Each batch runner names its directory itself. On every path the Rust
  tests run in \<open>src-tauri\<close> and every other check in the project root, and the two
  directories differ.
\<close>

theorem cwd_follows_command:
  "fst (wrapper E func label h W) =
      h @ [Run (interactive_call func (if ''cargo'' \<in> set func then SRC_TAURI E else PROJECT_ROOT E))]
   \<and> fst (run_all_loop E [(label, func)] h W results) =
      h @ [Run (interactive_call func (if ''cargo'' \<in> set func then SRC_TAURI E else PROJECT_ROOT E))]
   \<and> map (\<lambda>(label, cmd). ''cargo'' \<in> set cmd) buttons = [True, False, False, False]
   \<and> map (\<lambda>(label, cmd). ''cargo'' \<in> set cmd) run_all_checks = [True, False, False]
   \<and> snd (run_rust_tests E h) = h @ [Run (batch_call [''cargo'', ''test'', ''--lib''] (SRC_TAURI E))]
   \<and> snd (run_frontend_lint E h) = h @ [Run (batch_call [''bun'', ''run'', ''lint''] (PROJECT_ROOT E))]
   \<and> snd (run_type_check E h) = h @ [Run (batch_call [''bun'', ''x'', ''tsc'', ''--noEmit''] (PROJECT_ROOT E))]
   \<and> snd (run_format_check E h) = h @ [Run (batch_call [''bun'', ''run'', ''format:check''] (PROJECT_ROOT E))]
   \<and> SRC_TAURI E \<noteq> PROJECT_ROOT E"
proof -
  have "fst (run_all_loop E [(label, func)] h W results) =
      h @ [Run (interactive_call func (if ''cargo'' \<in> set func then SRC_TAURI E else PROJECT_ROOT E))]"
    by (simp add: subprocess_run_def Let_def split: sum.splits)
  moreover have "map (\<lambda>(label, cmd). ''cargo'' \<in> set cmd) buttons = [True, False, False, False]"
    by (simp add: buttons_def)
  moreover have "map (\<lambda>(label, cmd). ''cargo'' \<in> set cmd) run_all_checks = [True, False, False]"
    by (simp add: run_all_checks_def)
  ultimately show ?thesis
    using wrapper_events [of E func label h W] SRC_TAURI_neq [of E]
    by (simp add: check_cwd_def run_rust_tests_def run_frontend_lint_def run_type_check_def
        run_format_check_def batch_runner_eq)
qed

text \<open>
  Claim C7 says that an interactive check that exceeds 300 seconds ends as timed out, with
  the output captured until then. As stated it fails: the worker shows the header and the
  line \<open>TIMEOUT\<close>, and nothing of what the child had written.
\<close>

theorem timeout_output_dropped_counterexample:
  "proc_run env_timeout [] (interactive_call [''cargo'', ''test'', ''--lib''] ''/repo/src-tauri'')
     = Inl (TimeoutExpired ''timed out after 300 seconds'' ''running 12 tests'' ''warning: unused variable'')
   \<and> wrapper env_timeout [''cargo'', ''test'', ''--lib''] ''Run Rust Tests'' [] widgets_init =
       ([Run (interactive_call [''cargo'', ''test'', ''--lib''] ''/repo/src-tauri'')],
        \<lparr>output_box = [(py_repeat ''='' 50 @ nl, None), (''  Run Rust Tests'' @ nl, None),
                       (py_repeat ''='' 50 @ nl @ nl, None),
                       (nl @ ''! Run Rust Tests '' @ em_dash @ '' TIMEOUT'' @ nl, Some ''yellow'')],
         status_var = ''! Run Rust Tests timed out''\<rparr>)
   \<and> (''running 12 tests'' @ nl, None) \<notin> set (output_box (snd (wrapper env_timeout [''cargo'', ''test'', ''--lib''] ''Run Rust Tests'' [] widgets_init)))"
proof -
  have "length ''running 12 tests'' \<noteq> length (replicate 50 CHR ''='')"
    by simp
  then have "''running 12 tests'' \<noteq> replicate 50 CHR ''=''"
    by metis
  then show ?thesis
    by (simp add: wrapper_def subprocess_run_def wrapper_header_eq write_output_def status_set_def
        env_timeout_def env_base_def SRC_TAURI_def PROJECT_ROOT_def path_join_def py_repeat_def nl_def)
qed

text \<open>
  Claim C7, amended: every interactive check is one call of \<open>subprocess.run\<close> with
  \<open>capture_output=True\<close> and \<open>timeout=300\<close>. When the call raises \<open>TimeoutExpired\<close>,
  the worker of a single check shows the header and the line \<open>TIMEOUT\<close> and sets the
  status to \<open>timed out\<close>; the loop of Run All Checks shows \<open>Error:\<close> with the message,
  records the check as failed and goes on with the next check. Neither shows the output
  captured before the timeout.
\<close>

theorem interactive_timeout:
  "fst (wrapper E func label h W) = h @ [Run (interactive_call func (check_cwd E func))]
   \<and> fst (run_all_loop E [(label, func)] h W results) = h @ [Run (interactive_call func (check_cwd E func))]
   \<and> timeout (interactive_call func (check_cwd E func)) = Some 300
   \<and> capture_output (interactive_call func (check_cwd E func))
   \<and> (proc_run E h (interactive_call func (check_cwd E func)) = Inl (TimeoutExpired m out err) \<longrightarrow>
        snd (wrapper E func label h W) =
          \<lparr>output_box = [(py_repeat ''='' 50 @ nl, None), (''  '' @ label @ nl, None),
                         (py_repeat ''='' 50 @ nl @ nl, None),
                         (nl @ ''! '' @ label @ '' '' @ em_dash @ '' TIMEOUT'' @ nl, Some ''yellow'')],
           status_var = ''! '' @ label @ '' timed out''\<rparr>
        \<and> run_all_loop E ((label, func) # rest) h W results =
            run_all_loop E rest (h @ [Run (interactive_call func (check_cwd E func))])
              (write_output (run_all_header label W) (''Error: '' @ m) (Some ''red''))
              (dict_set results label False))"
proof -
  have "snd (wrapper E func label h W) =
          \<lparr>output_box = [(py_repeat ''='' 50 @ nl, None), (''  '' @ label @ nl, None),
                         (py_repeat ''='' 50 @ nl @ nl, None),
                         (nl @ ''! '' @ label @ '' '' @ em_dash @ '' TIMEOUT'' @ nl, Some ''yellow'')],
           status_var = ''! '' @ label @ '' timed out''\<rparr>"
    if "proc_run E h (interactive_call func (check_cwd E func)) = Inl (TimeoutExpired m out err)"
    using that
    by (cases "''cargo'' \<in> set func")
      (simp_all add: wrapper_def subprocess_run_def check_cwd_def wrapper_header_eq write_output_def
        status_set_def Let_def)
  moreover have "run_all_loop E ((label, func) # rest) h W results =
            run_all_loop E rest (h @ [Run (interactive_call func (check_cwd E func))])
              (write_output (run_all_header label W) (''Error: '' @ m) (Some ''red''))
              (dict_set results label False)"
    if "proc_run E h (interactive_call func (check_cwd E func)) = Inl (TimeoutExpired m out err)"
    using that
    by (cases "''cargo'' \<in> set func") (simp_all add: subprocess_run_def check_cwd_def Let_def)
  moreover have "fst (run_all_loop E [(label, func)] h W results) =
            h @ [Run (interactive_call func (check_cwd E func))]"
    by (simp add: subprocess_run_def check_cwd_def Let_def split: sum.splits)
  ultimately show ?thesis
    using wrapper_events [of E func label h W] by (simp add: interactive_call_def)
qed

theorem interactive_timeout_witness:
  "proc_run env_timeout [] (interactive_call [''bun'', ''run'', ''lint''] (check_cwd env_timeout [''bun'', ''run'', ''lint'']))
     = Inl (TimeoutExpired ''timed out after 300 seconds'' ''running 12 tests'' ''warning: unused variable'')
   \<and> status_var (snd (wrapper env_timeout [''bun'', ''run'', ''lint''] ''Lint Frontend'' [] widgets_init))
     = ''! Lint Frontend timed out''
   \<and> run_all_loop env_timeout [(''Frontend Lint'', [''bun'', ''run'', ''lint''])] [] widgets_init [] =
       ([Run (interactive_call [''bun'', ''run'', ''lint''] ''/repo'')],
        write_output (run_all_header ''Frontend Lint'' widgets_init) ''Error: timed out after 300 seconds'' (Some ''red''),
        [(''Frontend Lint'', False)])"
proof -
  have t: "proc_run env_timeout [] (interactive_call [''bun'', ''run'', ''lint''] (check_cwd env_timeout [''bun'', ''run'', ''lint'']))
     = Inl (TimeoutExpired ''timed out after 300 seconds'' ''running 12 tests'' ''warning: unused variable'')"
    by (simp add: env_timeout_def env_base_def)
  have c: "check_cwd env_timeout [''bun'', ''run'', ''lint''] = ''/repo''"
    by (simp add: check_cwd_def env_timeout_def env_base_def PROJECT_ROOT_def)
  show ?thesis
    using interactive_timeout [of env_timeout "[''bun'', ''run'', ''lint'']" "''Lint Frontend''" "[]" widgets_init
        "[]" "''timed out after 300 seconds''" "''running 12 tests''" "''warning: unused variable''" "[]"]
      interactive_timeout [of env_timeout "[''bun'', ''run'', ''lint'']" "''Frontend Lint''" "[]" widgets_init
        "[]" "''timed out after 300 seconds''" "''running 12 tests''" "''warning: unused variable''" "[]"]
      t
    by (simp add: c)
qed

subsection \<open>Aggregation\<close>

lemma run_all_summary_status:
  "status_var (run_all_summary results W) =
     (if py_all (map snd results) then check_mark @ '' All checks passed!''
      else cross_mark @ '' Some checks failed'')"
  by (simp add: run_all_summary_def status_set_def Let_def)







lemma run_all_thread_events:
  "fst (run_all_thread E h W) =
     h @ map Run [interactive_call [''cargo'', ''test'', ''--lib''] (SRC_TAURI E),
                  interactive_call [''bun'', ''run'', ''lint''] (PROJECT_ROOT E),
                  interactive_call [''bun'', ''x'', ''tsc'', ''--noEmit''] (PROJECT_ROOT E)]"
  by (simp add: run_all_thread_def run_all_thread_on_def run_all_checks_def subprocess_run_def Let_def
      split: sum.splits prod.splits)

text \<open>
  Claim C9: Run All Checks of the dashboard runs three checks, Rust Tests, Frontend Lint and
  Type Check, in every world, and never the format check; the batch run has Format Check as
  its fourth. In a world where only \<open>bun run format:check\<close> fails, the dashboard reports
  that all checks passed, while \<open>run_all_tests\<close> returns \<open>False\<close> and \<open>--test\<close> exits
  with 1.
\<close>

theorem run_all_checks_omits_format_check:
  "map fst run_all_checks = [''Rust Tests'', ''Frontend Lint'', ''Type Check'']
   \<and> fst (run_all_thread E h W) =
       h @ map Run [interactive_call [''cargo'', ''test'', ''--lib''] (SRC_TAURI E),
                    interactive_call [''bun'', ''run'', ''lint''] (PROJECT_ROOT E),
                    interactive_call [''bun'', ''x'', ''tsc'', ''--noEmit''] (PROJECT_ROOT E)]
   \<and> map fst (check_catalog E) = [''Rust Tests'', ''Frontend Lint'', ''Type Check'', ''Format Check'']
   \<and> status_var (snd (run_all_thread env_format_fails [] widgets_init)) = check_mark @ '' All checks passed!''
   \<and> run_all_tests env_format_fails [] =
       (Inr False,
        map Run [batch_call [''cargo'', ''test'', ''--lib''] ''/repo/src-tauri'',
                 batch_call [''bun'', ''run'', ''lint''] ''/repo'',
                 batch_call [''bun'', ''x'', ''tsc'', ''--noEmit''] ''/repo'',
                 batch_call [''bun'', ''run'', ''format:check''] ''/repo''])
   \<and> fst (main args_skip_test env_format_fails []) = SysExit 1"
proof -
  have s: "status_var (snd (run_all_thread env_format_fails [] widgets_init)) = check_mark @ '' All checks passed!''"
    by (simp add: run_all_thread_def run_all_thread_on_def run_all_checks_def subprocess_run_def
        run_all_summary_status env_format_fails_def env_base_def interactive_call_def ok_process_def Let_def)
  have b: "run_all_tests env_format_fails [] =
       (Inr False,
        map Run [batch_call [''cargo'', ''test'', ''--lib''] ''/repo/src-tauri'',
                 batch_call [''bun'', ''run'', ''lint''] ''/repo'',
                 batch_call [''bun'', ''x'', ''tsc'', ''--noEmit''] ''/repo'',
                 batch_call [''bun'', ''run'', ''format:check''] ''/repo''])"
  proof -
    have "outcomes env_format_fails (map snd (check_catalog env_format_fails)) [] =
       map Inr [ok_process, ok_process, ok_process,
                \<lparr>returncode = 1, stdout = ''[warn] src/App.tsx'', stderr = []\<rparr>]"
      by (simp add: check_catalog_def env_format_fails_def env_base_def batch_call_def)
    from run_all_tests_completed [OF this] show ?thesis
      by (simp add: check_catalog_def env_format_fails_def env_base_def SRC_TAURI_def PROJECT_ROOT_def
          path_join_def)
  qed
  have m: "fst (main args_skip_test env_format_fails []) = SysExit 1"
    by (simp add: main_def main_modes_def end_with_def b args_skip_test_def args_none_def)
  show ?thesis
    using s b m run_all_thread_events [of E h W]
    by (simp add: run_all_checks_def check_catalog_def)
qed

subsection \<open>Threads of the dashboard\<close>

text \<open>
  Claim C6 says that a check is never executed twice at the same time. As stated it fails:
  nothing in the dashboard keeps track of running threads, and pressing Run Rust Tests
  twice leaves two executions of that check in flight.
\<close>

theorem double_click_counterexample:
  "in_flight ''Run Rust Tests'' (gui_run [Button 0, Button 0]) = 2"
  by (simp add: gui_run_def gui_init_def in_flight_def run_in_thread_def start_thread_def buttons_def)

text \<open>
  Claim C6, amended: the dashboard does not limit the executions of a check. Whatever is in
  flight, pressing the button of a check starts one more thread that executes it, so the
  number of executions of that check in flight grows by one with every press.
\<close>

theorem click_always_starts_worker:
  assumes "i < length buttons"
  shows "workers (gui_step G (Button i)) = workers G @ [CheckWorker (snd (buttons ! i)) (fst (buttons ! i))]
         \<and> in_flight (fst (buttons ! i)) (gui_step G (Button i)) = Suc (in_flight (fst (buttons ! i)) G)"
  using assms by (simp add: run_in_thread_def start_thread_def in_flight_def)

theorem click_always_starts_worker_witness:
  "(0::nat) < length buttons
   \<and> in_flight ''Run Rust Tests'' (gui_run [Button 0]) = 1
   \<and> in_flight ''Run Rust Tests'' (gui_step (gui_run [Button 0]) (Button 0)) = 2"
proof -
  have l: "(0::nat) < length buttons"
    by (simp add: buttons_def)
  have f: "fst (buttons ! 0) = ''Run Rust Tests''"
    by (simp add: buttons_def)
  have o: "in_flight ''Run Rust Tests'' (gui_run [Button 0]) = 1"
    by (simp add: gui_run_def gui_init_def in_flight_def run_in_thread_def start_thread_def buttons_def)
  show ?thesis
    using click_always_starts_worker [OF l, of "gui_run [Button 0]"] l o by (simp add: f)
qed

subsection \<open>Download of the VAD model\<close>

text \<open>
  When the file exists, \<open>download_vad_model\<close> returns \<open>True\<close> and does nothing, so a
  second call after one that left the file in place does nothing. When the file is absent
  and curl exits with a non-zero code, or curl is not installed, \<open>urlretrieve\<close> is tried.
\<close>

lemma download_present_noop:
  "fs_exists E h (VAD_MODEL_PATH E) \<Longrightarrow> download_vad_model E h = (Inr True, h)"
  by (simp add: download_vad_model_def)

lemma download_twice:
  "download_vad_model E h = (r, h') \<Longrightarrow> fs_exists E h' (VAD_MODEL_PATH E) \<Longrightarrow>
   download_vad_model E h' = (Inr True, h')"
  by (simp add: download_vad_model_def)

lemma download_fallback:
  assumes "\<not> fs_exists E h (VAD_MODEL_PATH E)" and "fs_mkdir E h (VAD_MODEL_DIR E) = None"
    and "truthy (which E ''curl'')"
    and "proc_run E (h @ [Mkdir (VAD_MODEL_DIR E)]) (curl_call E) = Inr result" and "returncode result \<noteq> 0"
  shows "download_vad_model E h =
           (Inr (url_retrieve E (h @ [Mkdir (VAD_MODEL_DIR E), Run (curl_call E)]) VAD_MODEL_URL (VAD_MODEL_PATH E) = None),
            h @ [Mkdir (VAD_MODEL_DIR E), Run (curl_call E), UrlRetrieve VAD_MODEL_URL (VAD_MODEL_PATH E)])"
  using assms
  by (simp add: download_vad_model_def download_urllib_def subprocess_run_def Let_def split: option.splits)

lemma download_without_curl:
  assumes "\<not> fs_exists E h (VAD_MODEL_PATH E)" and "fs_mkdir E h (VAD_MODEL_DIR E) = None"
    and "\<not> truthy (which E ''curl'')"
  shows "download_vad_model E h =
           (Inr (url_retrieve E (h @ [Mkdir (VAD_MODEL_DIR E)]) VAD_MODEL_URL (VAD_MODEL_PATH E) = None),
            h @ [Mkdir (VAD_MODEL_DIR E), UrlRetrieve VAD_MODEL_URL (VAD_MODEL_PATH E)])"
  using assms
  by (simp add: download_vad_model_def download_urllib_def subprocess_run_def Let_def split: option.splits)

text \<open>
  Claim C8 says that the download does nothing when the file exists, and otherwise falls
  back to the second transport when the first fails, before it reports failure. The first
  part holds (\<open>download_present_noop\<close>, \<open>download_twice\<close>), and so does the fallback after
  a non-zero exit code of curl (\<open>download_fallback\<close>). But when curl is found and cannot
  be started, the exception goes to the handler of the whole \<open>try\<close> block: the function
  returns \<open>False\<close> and \<open>urlretrieve\<close>, which would have succeeded, is never called.
\<close>

theorem download_curl_raises_no_fallback:
  "\<not> fs_exists env_curl_broken [] (VAD_MODEL_PATH env_curl_broken)
   \<and> truthy (which env_curl_broken ''curl'')
   \<and> proc_run env_curl_broken [Mkdir ''/repo/src-tauri/resources/models''] (curl_call env_curl_broken)
       = Inl (OSError ''[Errno 8] Exec format error: curl'')
   \<and> url_retrieve env_curl_broken [Mkdir ''/repo/src-tauri/resources/models'', Run (curl_call env_curl_broken)]
        VAD_MODEL_URL (VAD_MODEL_PATH env_curl_broken) = None
   \<and> download_vad_model env_curl_broken [] =
       (Inr False, [Mkdir ''/repo/src-tauri/resources/models'', Run (curl_call env_curl_broken)])"
  by (simp add: download_vad_model_def subprocess_run_def env_curl_broken_def env_base_def
      curl_call_def VAD_MODEL_DIR_def SRC_TAURI_def PROJECT_ROOT_def path_join_def Let_def)

end
